theory Spec2Isabelle
  imports Main "HOL-Library.Word"
begin

unbundle bit_operations_syntax

section \<open>Data model of matriz.c\<close>

text \<open>
  The target is a 32-bit microcontroller: \<^verbatim>\<open>uint\<close> (unsigned int) and
  \<^verbatim>\<open>uint32_t\<close> are 32-bit words, \<^verbatim>\<open>uint8_t\<close> is an 8-bit word.
  Unsigned arithmetic wraps around, as \<open>+\<close>, \<open>-\<close> and \<open>*\<close> on words do.
\<close>

type_synonym u8 = "8 word"
type_synonym u32 = "32 word"

text \<open>\<^verbatim>\<open>#define LED_COUNT 25\<close>\<close>

definition LED_COUNT :: nat where
  "LED_COUNT = 25"

text \<open>
  The PIO blocks of the board; the driver only ever names \<^verbatim>\<open>pio0\<close>.
\<close>

datatype pio_inst = pio0 | pio1

text \<open>
  One call of the transmit primitive \<^verbatim>\<open>pio_sm_put_blocking(pio, sm, data)\<close>, as
  its three arguments.
\<close>

type_synonym tx_call = "pio_inst \<times> u32 \<times> u32"

text \<open>
  The state the module works on: the static array \<^verbatim>\<open>matriz_buffer[LED_COUNT]\<close>
  (a list, whose length \<open>LED_COUNT\<close> is the array's size) and, for the I/O, the
  sequence of calls of the transmit primitive made so far, oldest first.
\<close>

record driver_state =
  matriz_buffer :: "u32 list"
  pio_tx :: "tx_call list"

text \<open>
  \<^verbatim>\<open>static uint32_t matriz_buffer[LED_COUNT] = {0};\<close>: every slot zero at program
  start, nothing transmitted yet.
\<close>

definition init_state :: driver_state where
  "init_state = \<lparr>matriz_buffer = replicate LED_COUNT 0, pio_tx = []\<rparr>"

section \<open>The functions of matriz.c\<close>

text \<open>
  \<^verbatim>\<open>return ((uint32_t)(g) << 16) | ((uint32_t)(r) << 8) | (uint32_t)(b);\<close>
\<close>

definition urgb_u32 :: "u8 \<Rightarrow> u8 \<Rightarrow> u8 \<Rightarrow> u32" where
  "urgb_u32 r g b =
     push_bit 16 (ucast g :: u32) OR push_bit 8 (ucast r :: u32) OR (ucast b :: u32)"

text \<open>
  Modelled from the spec: \<^verbatim>\<open>pio_sm_put_blocking\<close> belongs to the board's SDK and
  is not part of the sources; the spec describes it as the blocking enqueue of one word
  for transmission, trusted not to fail. The model records the call.
\<close>

definition pio_sm_put_blocking :: "pio_inst \<Rightarrow> u32 \<Rightarrow> u32 \<Rightarrow> driver_state \<Rightarrow> driver_state" where
  "pio_sm_put_blocking pio sm data s = s\<lparr>pio_tx := pio_tx s @ [(pio, sm, data)]\<rparr>"

text \<open>\<^verbatim>\<open>pio_sm_put_blocking(pio0, 0, pixel_grb << 8u);\<close>\<close>

definition put_pixel_raw :: "u32 \<Rightarrow> driver_state \<Rightarrow> driver_state" where
  "put_pixel_raw pixel_grb s = pio_sm_put_blocking pio0 0 (push_bit 8 pixel_grb) s"

text \<open>
  \<^verbatim>\<open>uint inverted_y = 4 - y;\<close> followed by the test of its parity. All of it is
  unsigned 32-bit arithmetic.
\<close>

definition xy_to_index :: "u32 \<Rightarrow> u32 \<Rightarrow> u32" where
  "xy_to_index x y =
     (let inverted_y = 4 - y in
      if inverted_y mod 2 = 0 then inverted_y * 5 + x
      else inverted_y * 5 + (4 - x))"

text \<open>\<^verbatim>\<open>memset(matriz_buffer, 0, sizeof(matriz_buffer));\<close>: all 25 words become 0.\<close>

definition matriz_limpar :: "driver_state \<Rightarrow> driver_state" where
  "matriz_limpar s = s\<lparr>matriz_buffer := replicate LED_COUNT 0\<rparr>"

text \<open>
  \<^verbatim>\<open>if (x < 5 && y < 5) { matriz_buffer[xy_to_index(x, y)] = urgb_u32(r, g, b); }\<close>
\<close>

definition matriz_set_pixel :: "u32 \<Rightarrow> u32 \<Rightarrow> u8 \<Rightarrow> u8 \<Rightarrow> u8 \<Rightarrow> driver_state \<Rightarrow> driver_state" where
  "matriz_set_pixel x y r g b s =
     (if x < 5 \<and> y < 5
      then s\<lparr>matriz_buffer := (matriz_buffer s)[unat (xy_to_index x y) := urgb_u32 r g b]\<rparr>
      else s)"

text \<open>
  \<^verbatim>\<open>for (int i = 0; i < LED_COUNT; ++i) { put_pixel_raw(matriz_buffer[i]); }\<close>:
  the loop from counter value \<open>i\<close> on. The counter runs from 0 to 25 and cannot
  overflow, so it is a natural number here.
\<close>

function renderizar_loop :: "nat \<Rightarrow> driver_state \<Rightarrow> driver_state" where
  "renderizar_loop i s =
     (if i < LED_COUNT then renderizar_loop (i + 1) (put_pixel_raw (matriz_buffer s ! i) s)
      else s)"
  by pat_completeness auto
termination
  by (relation "measure (\<lambda>(i, s). LED_COUNT - i)") auto

definition matriz_renderizar :: "driver_state \<Rightarrow> driver_state" where
  "matriz_renderizar s = renderizar_loop 0 s"

section \<open>The specification's formulas\<close>

text \<open>
  The serpentine formula of the specification, over the natural numbers:
  \<open>row' = 4 - y\<close>; the index is \<open>row' * 5 + x\<close> when \<open>row'\<close> is even and
  \<open>row' * 5 + (4 - x)\<close> when it is odd.
\<close>

definition spec_index :: "nat \<Rightarrow> nat \<Rightarrow> nat" where
  "spec_index x y =
     (let row' = 4 - y in
      if even row' then row' * 5 + x else row' * 5 + (4 - x))"

text \<open>The specification's packing rule, on the channels' values as numbers.\<close>

definition spec_pack :: "nat \<Rightarrow> nat \<Rightarrow> nat \<Rightarrow> nat" where
  "spec_pack r g b = g * 2 ^ 16 + r * 2 ^ 8 + b"

text \<open>
  The candidate inverse of the mapping: row and column are read off the index by division
  by 5, and then flipped back. The sources have no such function; it serves as the witness
  of bijectivity only.
\<close>

definition index_to_xy :: "u32 \<Rightarrow> u32 \<times> u32" where
  "index_to_xy i =
     (let row = i div 5; col = i mod 5
      in (if row mod 2 = 0 then col else 4 - col, 4 - row))"

text \<open>Every word of the buffer has its upper 8 bits clear: it is below \<open>2 ^ 24\<close>.\<close>

definition buffer_words_24bit :: "driver_state \<Rightarrow> bool" where
  "buffer_words_24bit s = list_all (\<lambda>w. w < 2 ^ 24) (matriz_buffer s)"

declare renderizar_loop.simps [simp del]

section \<open>Small words by cases\<close>

lemma u32_of_unat: "unat (x :: u32) = n \<Longrightarrow> x = word_of_nat n"
  by auto

lemma u32_less_5_cases:
  fixes x :: u32
  assumes "x < 5"
  shows "x = 0 \<or> x = 1 \<or> x = 2 \<or> x = 3 \<or> x = 4"
proof -
  from assms have "unat x < 5"
    by (simp add: word_less_nat_alt)
  then have "unat x = 0 \<or> unat x = 1 \<or> unat x = 2 \<or> unat x = 3 \<or> unat x = 4"
    by arith
  then show ?thesis
    using u32_of_unat [of x 0] u32_of_unat [of x 1] u32_of_unat [of x 2]
      u32_of_unat [of x 3] u32_of_unat [of x 4]
    by auto
qed

lemma u32_less_25_cases:
  fixes i :: u32
  assumes "i < 25"
  shows "i \<in> {0, 1, 2, 3, 4, 5, 6, 7, 8, 9, 10, 11, 12, 13, 14, 15, 16, 17, 18, 19,
    20, 21, 22, 23, 24}"
proof -
  from assms have "unat i < 25"
    by (simp add: word_less_nat_alt)
  then have "unat i \<in> {0, 1, 2, 3, 4, 5, 6, 7, 8, 9, 10, 11, 12, 13, 14, 15, 16, 17, 18, 19,
    20, 21, 22, 23, 24}"
    unfolding insert_iff empty_iff by arith
  then have "word_of_nat (unat i) \<in> (word_of_nat ` {0, 1, 2, 3, 4, 5, 6, 7, 8, 9, 10, 11, 12,
    13, 14, 15, 16, 17, 18, 19, 20, 21, 22, 23, 24} :: u32 set)"
    by (rule imageI)
  then show ?thesis
    by simp
qed

lemma u32_le_4_iff: "(x :: u32) \<le> 4 \<longleftrightarrow> x < 5"
  by (simp add: word_le_nat_alt word_less_nat_alt) arith

lemma u32_le_24_iff: "(x :: u32) \<le> 24 \<longleftrightarrow> x < 25"
  by (simp add: word_le_nat_alt word_less_nat_alt) arith

section \<open>The coordinate mapping\<close>

lemma xy_to_index_less:
  assumes "x < 5" "y < 5"
  shows "xy_to_index x y < 25"
  using u32_less_5_cases [OF assms(1)] u32_less_5_cases [OF assms(2)]
  by (elim disjE; simp add: xy_to_index_def)

lemma index_to_xy_xy_to_index:
  assumes "x < 5" "y < 5"
  shows "index_to_xy (xy_to_index x y) = (x, y)"
  using u32_less_5_cases [OF assms(1)] u32_less_5_cases [OF assms(2)]
  by (elim disjE; simp add: xy_to_index_def index_to_xy_def)

lemma xy_to_index_index_to_xy:
  assumes "i < 25"
  shows "fst (index_to_xy i) < 5 \<and> snd (index_to_xy i) < 5
    \<and> xy_to_index (fst (index_to_xy i)) (snd (index_to_xy i)) = i"
  using u32_less_25_cases [OF assms]
  unfolding insert_iff empty_iff
  by (elim disjE; simp add: xy_to_index_def index_to_xy_def)

lemma unat_xy_to_index:
  assumes "x < 5" "y < 5"
  shows "unat (xy_to_index x y) = spec_index (unat x) (unat y)"
  using u32_less_5_cases [OF assms(1)] u32_less_5_cases [OF assms(2)]
  by (elim disjE; simp add: xy_to_index_def spec_index_def)

text \<open>
  C1. Restricted to \<open>x\<close> and \<open>y\<close> in \<open>[0,4]\<close>, \<open>xy_to_index\<close> is a bijection onto
  \<open>[0,24]\<close>: no two coordinate pairs share an index, and every index from 0 to 24 is the
  image of a pair.
\<close>

theorem xy_to_index_bijection:
  "bij_betw (\<lambda>(x, y). xy_to_index x y) ({0..4} \<times> {0..4}) {0..24}"
proof (rule bij_betw_byWitness [where f' = index_to_xy])
  show "\<forall>a\<in>{0..4} \<times> {0..4}. index_to_xy (case a of (x, y) \<Rightarrow> xy_to_index x y) = a"
    by (auto simp: u32_le_4_iff index_to_xy_xy_to_index)
  show "\<forall>a'\<in>{0..24}. (case index_to_xy a' of (x, y) \<Rightarrow> xy_to_index x y) = a'"
    using xy_to_index_index_to_xy by (simp add: u32_le_24_iff case_prod_beta)
  show "(\<lambda>(x, y). xy_to_index x y) ` ({0..4} \<times> {0..4}) \<subseteq> {0..24}"
    by (auto simp: u32_le_4_iff u32_le_24_iff xy_to_index_less)
  show "index_to_xy ` {0..24} \<subseteq> {0..4} \<times> {0..4}"
  proof
    fix p assume "p \<in> index_to_xy ` {0..24}"
    then obtain i where "i < 25" "p = index_to_xy i"
      by (auto simp: u32_le_24_iff)
    with xy_to_index_index_to_xy [of i] show "p \<in> {0..4} \<times> {0..4}"
      by (simp add: mem_Times_iff u32_le_4_iff)
  qed
qed

text \<open>
  C2. For \<open>x\<close> and \<open>y\<close> in \<open>[0,4]\<close>, \<open>xy_to_index x y\<close> is the value of the
  specification's serpentine formula with the vertical flip; and \<open>index(0,4) = 0\<close>,
  \<open>index(4,4) = 4\<close>, \<open>index(0,3) = 9\<close>, \<open>index(4,3) = 5\<close>.
\<close>

theorem xy_to_index_serpentine:
  "(x \<le> 4 \<and> y \<le> 4 \<longrightarrow> unat (xy_to_index x y) = spec_index (unat x) (unat y))
   \<and> xy_to_index 0 4 = 0 \<and> xy_to_index 4 4 = 4
   \<and> xy_to_index 0 3 = 9 \<and> xy_to_index 4 3 = 5"
proof -
  have "xy_to_index 0 4 = 0" "xy_to_index 4 4 = 4" "xy_to_index 0 3 = 9" "xy_to_index 4 3 = 5"
    by (simp_all add: xy_to_index_def)
  then show ?thesis
    by (simp add: u32_le_4_iff unat_xy_to_index)
qed

theorem xy_to_index_serpentine_witness:
  "(2 :: u32) \<le> 4 \<and> (1 :: u32) \<le> 4
   \<and> unat (xy_to_index 2 1) = spec_index (unat (2 :: u32)) (unat (1 :: u32))
   \<and> spec_index (unat (2 :: u32)) (unat (1 :: u32)) = 17"
  using xy_to_index_serpentine [of 2 1]
  by (simp add: spec_index_def)

section \<open>Colour packing\<close>

lemma urgb_u32_mask: "urgb_u32 r g b AND mask 24 = urgb_u32 r g b"
  unfolding urgb_u32_def
  by (rule bit_eqI) (auto simp: bit_simps dest: bit_imp_le_length)

lemma urgb_u32_less: "urgb_u32 r g b < 2 ^ 24"
  using urgb_u32_mask [of r g b] by (simp add: mask_eq_iff_w2p word_size)

lemma u8_unat_less: "unat (w :: u8) < 256"
  using unsigned_less [of w, where 'a = nat] by simp

lemma unat_ucast_u8: "unat (ucast (w :: u8) :: u32) = unat w"
  using u8_unat_less [of w] by (simp add: unsigned_ucast_eq take_bit_nat_eq_self)

lemma urgb_u32_plus: "urgb_u32 r g b = push_bit 16 (ucast g) + push_bit 8 (ucast r) + ucast b"
proof -
  have 1: "push_bit 8 (ucast r :: u32) AND (ucast b :: u32) = 0"
    by (rule bit_eqI) (auto simp: bit_simps dest: bit_imp_le_length)
  have 2: "push_bit 16 (ucast g :: u32) AND (push_bit 8 (ucast r :: u32) OR (ucast b :: u32)) = 0"
    by (rule bit_eqI) (auto simp: bit_simps dest: bit_imp_le_length)
  have "urgb_u32 r g b = push_bit 16 (ucast g) + (push_bit 8 (ucast r :: u32) OR (ucast b :: u32))"
    unfolding urgb_u32_def by (rule disjunctive_add_eq_or [OF 2, symmetric])
  also have "push_bit 8 (ucast r :: u32) OR (ucast b :: u32) = push_bit 8 (ucast r) + ucast b"
    by (rule disjunctive_add_eq_or [OF 1, symmetric])
  finally show ?thesis
    by (simp add: add.assoc)
qed

lemma unat_urgb_u32: "unat (urgb_u32 r g b) = spec_pack (unat r) (unat g) (unat b)"
proof -
  have "unat g < 256" "unat r < 256" "unat b < 256"
    by (rule u8_unat_less)+
  then show ?thesis
    unfolding urgb_u32_plus spec_pack_def
    by (simp add: unat_word_ariths push_bit_eq_mult unat_ucast_u8)
qed

section \<open>Staging pixels\<close>

lemma unat_xy_to_index_less:
  assumes "x < 5" "y < 5"
  shows "unat (xy_to_index x y) < LED_COUNT"
  using xy_to_index_less [OF assms] by (simp add: word_less_nat_alt LED_COUNT_def)

lemma length_matriz_set_pixel:
  "length (matriz_buffer (matriz_set_pixel x y r g b s)) = length (matriz_buffer s)"
  by (simp add: matriz_set_pixel_def)

lemma list_all_list_update:
  assumes "list_all P xs" "P v"
  shows "list_all P (xs[i := v])"
  using assms set_update_subset_insert [of xs i v] by (auto simp: list_all_iff)

text \<open>
  C3. For \<open>x\<close> and \<open>y\<close> in \<open>[0,4]\<close> and any channels \<open>r\<close>, \<open>g\<close>, \<open>b\<close>, after
  \<open>matriz_set_pixel x y r g b\<close> the slot at index \<open>xy_to_index x y\<close> holds the packed
  word \<open>(g << 16) | (r << 8) | b\<close>, whose value is \<open>g * 2^16 + r * 2^8 + b\<close>; and
  \<open>set_pixel(0,0,255,0,128)\<close> stores \<open>0x0000FF80\<close>. The buffer is the array of
  \<open>LED_COUNT\<close> words.
\<close>

theorem matriz_set_pixel_stores:
  assumes "length (matriz_buffer s) = LED_COUNT"
  shows "(x \<le> 4 \<and> y \<le> 4 \<longrightarrow>
       matriz_buffer (matriz_set_pixel x y r g b s) ! unat (xy_to_index x y)
         = push_bit 16 (ucast g) OR push_bit 8 (ucast r) OR ucast b
     \<and> unat (matriz_buffer (matriz_set_pixel x y r g b s) ! unat (xy_to_index x y))
         = spec_pack (unat r) (unat g) (unat b))
   \<and> matriz_buffer (matriz_set_pixel 0 0 255 0 128 s) ! unat (xy_to_index 0 0) = 0x0000FF80"
proof -
  have stored: "matriz_buffer (matriz_set_pixel x y r g b s) ! unat (xy_to_index x y)
      = urgb_u32 r g b" if "x < 5" "y < 5" for x y r g b
    using that unat_xy_to_index_less [OF that] assms by (simp add: matriz_set_pixel_def)
  have "matriz_buffer (matriz_set_pixel 0 0 255 0 128 s) ! unat (xy_to_index 0 0) = urgb_u32 255 0 128"
    by (rule stored) simp_all
  moreover have "urgb_u32 255 0 128 = 0x0000FF80"
    by (simp add: urgb_u32_def)
  ultimately show ?thesis
    using stored [of x y r g b] unat_urgb_u32 [of r g b]
    by (simp add: u32_le_4_iff urgb_u32_def)
qed

theorem matriz_set_pixel_stores_witness:
  "length (matriz_buffer init_state) = LED_COUNT \<and> (1 :: u32) \<le> 4 \<and> (2 :: u32) \<le> 4
   \<and> xy_to_index 1 2 = 11
   \<and> matriz_buffer (matriz_set_pixel 1 2 0x0A 0x0B 0x0C init_state) ! 11 = 0x0B0A0C"
proof -
  have len: "length (matriz_buffer init_state) = LED_COUNT"
    by (simp add: init_state_def)
  have idx: "xy_to_index 1 2 = 11"
    by (simp add: xy_to_index_def)
  show ?thesis
    using matriz_set_pixel_stores [OF len, of 1 2 "0x0A" "0x0B" "0x0C"] len idx
    by simp
qed

text \<open>
  C4. When \<open>x > 4\<close> or \<open>y > 4\<close>, \<open>matriz_set_pixel x y r g b\<close> returns the state
  it was given: the whole buffer is unchanged, nothing is transmitted and no error value
  exists to report. In particular for \<open>(5,0)\<close> and \<open>(0,5)\<close>.
\<close>

theorem matriz_set_pixel_out_of_range:
  "(4 < x \<or> 4 < y \<longrightarrow> matriz_set_pixel x y r g b s = s)
   \<and> matriz_set_pixel 5 0 r g b s = s \<and> matriz_set_pixel 0 5 r g b s = s"
  by (auto simp: matriz_set_pixel_def simp flip: u32_le_4_iff)

theorem matriz_set_pixel_out_of_range_witness:
  "(4 :: u32) < 0xFFFFFFFF
   \<and> matriz_set_pixel 0xFFFFFFFF 2 1 2 3 (matriz_set_pixel 0 0 255 0 128 init_state)
     = matriz_set_pixel 0 0 255 0 128 init_state"
  using matriz_set_pixel_out_of_range
    [of "0xFFFFFFFF" 2 1 2 3 "matriz_set_pixel 0 0 255 0 128 init_state"]
  by simp

text \<open>
  C8. For \<open>x\<close> and \<open>y\<close> in \<open>[0,4]\<close>, \<open>matriz_set_pixel x y r g b\<close> changes the
  single slot \<open>xy_to_index x y\<close>, which lies inside the array: every other slot keeps its
  word, the array keeps its size, and nothing is transmitted.
\<close>

theorem matriz_set_pixel_frame:
  assumes "x \<le> 4" "y \<le> 4" "length (matriz_buffer s) = LED_COUNT"
  shows "unat (xy_to_index x y) < LED_COUNT
     \<and> (\<forall>i < LED_COUNT. i \<noteq> unat (xy_to_index x y) \<longrightarrow>
          matriz_buffer (matriz_set_pixel x y r g b s) ! i = matriz_buffer s ! i)
     \<and> length (matriz_buffer (matriz_set_pixel x y r g b s)) = LED_COUNT
     \<and> pio_tx (matriz_set_pixel x y r g b s) = pio_tx s
     \<and> (matriz_set_pixel x y r g b s)\<lparr>matriz_buffer := matriz_buffer s\<rparr> = s"
proof -
  from assms have "x < 5" "y < 5"
    by (simp_all add: u32_le_4_iff)
  then show ?thesis
    using unat_xy_to_index_less [of x y] assms(3)
    by (simp add: matriz_set_pixel_def)
qed

theorem matriz_set_pixel_frame_witness:
  "(0 :: u32) \<le> 4 \<and> length (matriz_buffer init_state) = LED_COUNT
   \<and> unat (xy_to_index 0 0) = 20 \<and> (3 :: nat) < LED_COUNT
   \<and> matriz_buffer (matriz_set_pixel 0 0 255 0 128 init_state) ! 3 = matriz_buffer init_state ! 3
   \<and> pio_tx (matriz_set_pixel 0 0 255 0 128 init_state) = pio_tx init_state"
proof -
  have len: "length (matriz_buffer init_state) = LED_COUNT"
    by (simp add: init_state_def)
  have idx: "unat (xy_to_index 0 0) = 20"
    by (simp add: xy_to_index_def)
  have "(3 :: nat) < LED_COUNT"
    by (simp add: LED_COUNT_def)
  then show ?thesis
    using matriz_set_pixel_frame [OF _ _ len, of 0 0 255 0 128] len idx
    by simp
qed

text \<open>
  C9. Last write wins: for \<open>x\<close> and \<open>y\<close> in \<open>[0,4]\<close>, setting the pixel twice gives
  the state that the second call alone gives; in particular a repeated call with the same
  arguments changes nothing more.
\<close>

theorem matriz_set_pixel_last_write_wins:
  assumes "x \<le> 4" "y \<le> 4"
  shows "matriz_set_pixel x y r2 g2 b2 (matriz_set_pixel x y r1 g1 b1 s)
       = matriz_set_pixel x y r2 g2 b2 s
     \<and> matriz_set_pixel x y r g b (matriz_set_pixel x y r g b s) = matriz_set_pixel x y r g b s"
  by (simp add: matriz_set_pixel_def)

theorem matriz_set_pixel_last_write_wins_witness:
  "(3 :: u32) \<le> 4 \<and> (4 :: u32) \<le> 4
   \<and> matriz_set_pixel 3 4 9 8 7 (matriz_set_pixel 3 4 1 2 3 init_state)
     = matriz_set_pixel 3 4 9 8 7 init_state
   \<and> matriz_buffer (matriz_set_pixel 3 4 9 8 7 init_state) ! 3 = 0x080907"
proof -
  have "matriz_buffer (matriz_set_pixel 3 4 9 8 7 init_state) ! 3 = 0x080907"
    by (simp add: matriz_set_pixel_def init_state_def LED_COUNT_def xy_to_index_def urgb_u32_def)
  then show ?thesis
    using matriz_set_pixel_last_write_wins [of 3 4 9 8 7 1 2 3 init_state]
    by simp
qed

section \<open>Clearing and rendering\<close>

lemma renderizar_loop_tx:
  "renderizar_loop i s =
     s\<lparr>pio_tx := pio_tx s @ map (\<lambda>k. (pio0, 0, push_bit 8 (matriz_buffer s ! k))) [i..<LED_COUNT]\<rparr>"
proof (induction i s rule: renderizar_loop.induct)
  case (1 i s)
  show ?case
  proof (cases "i < LED_COUNT")
    case True
    then have "renderizar_loop i s = renderizar_loop (i + 1) (put_pixel_raw (matriz_buffer s ! i) s)"
      by (simp add: renderizar_loop.simps [of i s])
    also have "\<dots> = s\<lparr>pio_tx := pio_tx s @ (pio0, 0, push_bit 8 (matriz_buffer s ! i))
        # map (\<lambda>k. (pio0, 0, push_bit 8 (matriz_buffer s ! k))) [Suc i..<LED_COUNT]\<rparr>"
      using "1.IH" [OF True] by (simp add: put_pixel_raw_def pio_sm_put_blocking_def)
    finally show ?thesis
      using True by (simp add: upt_conv_Cons)
  next
    case False
    then show ?thesis
      by (simp add: renderizar_loop.simps [of i s])
  qed
qed

text \<open>
  C7. \<open>matriz_limpar\<close> sets each of the 25 slots to the zero word, from any state; it
  changes the buffer only, transmits nothing, and is a total function (it cannot fail).
\<close>

theorem matriz_limpar_clears:
  "matriz_buffer (matriz_limpar s) = replicate 25 0
   \<and> length (matriz_buffer (matriz_limpar s)) = LED_COUNT
   \<and> pio_tx (matriz_limpar s) = pio_tx s
   \<and> (matriz_limpar s)\<lparr>matriz_buffer := matriz_buffer s\<rparr> = s"
  by (simp add: matriz_limpar_def LED_COUNT_def)

text \<open>
  C5. \<open>matriz_renderizar\<close> calls the transmit primitive exactly 25 times, once per slot
  in the order 0 to 24, whatever the buffer holds; the word passed for slot \<open>i\<close> is the
  slot's word shifted left by 8 bits. The buffer itself is left as it was.
\<close>

theorem matriz_renderizar_transmits:
  assumes "length (matriz_buffer s) = LED_COUNT"
  shows "pio_tx (matriz_renderizar s)
       = pio_tx s @ map (\<lambda>i. (pio0, 0, push_bit 8 (matriz_buffer s ! i))) [0..<25]
     \<and> length (pio_tx (matriz_renderizar s)) = length (pio_tx s) + 25
     \<and> matriz_buffer (matriz_renderizar s) = matriz_buffer s"
  by (simp add: matriz_renderizar_def renderizar_loop_tx LED_COUNT_def)

theorem matriz_renderizar_transmits_witness:
  "length (matriz_buffer (matriz_set_pixel 0 0 255 0 128 init_state)) = LED_COUNT
   \<and> length (pio_tx (matriz_renderizar (matriz_set_pixel 0 0 255 0 128 init_state))) = 25
   \<and> pio_tx (matriz_renderizar (matriz_set_pixel 0 0 255 0 128 init_state)) ! 20
       = (pio0, 0, 0xFF8000)
   \<and> pio_tx (matriz_renderizar (matriz_set_pixel 0 0 255 0 128 init_state)) ! 21 = (pio0, 0, 0)"
proof -
  have len: "length (matriz_buffer (matriz_set_pixel 0 0 255 0 128 init_state)) = LED_COUNT"
    by (simp add: length_matriz_set_pixel init_state_def)
  have tx: "pio_tx (matriz_set_pixel 0 0 255 0 128 init_state) = []"
    by (simp add: matriz_set_pixel_def init_state_def)
  have slot20: "matriz_buffer (matriz_set_pixel 0 0 255 0 128 init_state) ! 20 = 0xFF80"
    by (simp add: matriz_set_pixel_def init_state_def LED_COUNT_def xy_to_index_def urgb_u32_def)
  have slot21: "matriz_buffer (matriz_set_pixel 0 0 255 0 128 init_state) ! 21 = 0"
    by (simp add: matriz_set_pixel_def init_state_def LED_COUNT_def xy_to_index_def)
  show ?thesis
    using matriz_renderizar_transmits [OF len] len
    by (simp add: tx slot20 slot21)
qed

text \<open>
  C6. \<open>matriz_limpar\<close> followed by \<open>matriz_renderizar\<close> hands exactly 25 zero words to
  the transmit primitive, from any prior state.
\<close>

theorem limpar_renderizar_zero_words:
  "pio_tx (matriz_renderizar (matriz_limpar s)) = pio_tx s @ replicate 25 (pio0, 0, 0)"
proof -
  have "map (\<lambda>k. (pio0, 0 :: u32, push_bit 8 (replicate 25 (0 :: u32) ! k))) [0..<25]
      = replicate 25 (pio0, 0, 0)"
    by (rule nth_equalityI) simp_all
  then show ?thesis
    by (simp add: matriz_renderizar_def renderizar_loop_tx matriz_limpar_def LED_COUNT_def)
qed

section \<open>The 24-bit invariant\<close>

text \<open>
  C10. Every word of the buffer is below \<open>2 ^ 24\<close>: the packed word of three 8-bit
  channels is, the zero-initialised buffer satisfies it, and \<open>matriz_limpar\<close> and
  \<open>matriz_set_pixel\<close> preserve it.
\<close>

theorem buffer_words_24bit_invariant:
  "urgb_u32 r g b < 2 ^ 24
   \<and> buffer_words_24bit init_state
   \<and> (buffer_words_24bit s \<longrightarrow> buffer_words_24bit (matriz_limpar s))
   \<and> (buffer_words_24bit s \<longrightarrow> buffer_words_24bit (matriz_set_pixel x y r g b s))"
proof -
  have "list_all (\<lambda>w. w < 2 ^ 24) (replicate LED_COUNT (0 :: u32))"
    by (simp add: list_all_iff)
  then show ?thesis
    using urgb_u32_less [of r g b]
    by (simp add: buffer_words_24bit_def init_state_def matriz_limpar_def matriz_set_pixel_def
        list_all_list_update)
qed

theorem buffer_words_24bit_invariant_witness:
  "buffer_words_24bit init_state
   \<and> buffer_words_24bit (matriz_limpar init_state)
   \<and> buffer_words_24bit (matriz_set_pixel 0 0 255 255 255 init_state)
   \<and> matriz_buffer (matriz_set_pixel 0 0 255 255 255 init_state) ! 20 = 0xFFFFFF"
proof -
  have "matriz_buffer (matriz_set_pixel 0 0 255 255 255 init_state) ! 20 = 0xFFFFFF"
    by (simp add: matriz_set_pixel_def init_state_def LED_COUNT_def xy_to_index_def urgb_u32_def)
  then show ?thesis
    using buffer_words_24bit_invariant [of 255 255 255 init_state 0 0]
    by simp
qed

end
